theory Spec2Isabelle
  imports Complex_Main
begin

section \<open>The auto swap bot of bot.js: data model\<close>

text \<open>
  The bot is the class \<open>OKXAutoSwapBot\<close> of \<open>src/bot.js\<close>. Its methods are asynchronous
  and talk to two outside services (the Solana RPC node and the OKX aggregator). In this
  development every outside call takes the answer of the service as an argument, and every
  method returns the list of effects it performed (log lines, requests, sleeps) together
  with its result, where \<open>Inl\<close> is a thrown error (a rejected promise) and \<open>Inr\<close> a returned
  value. JavaScript numbers that hold amounts, balances and the trade count are integers
  here (\<open>int\<close>); the trade limit, which the constructor takes from the configuration as any
  number, is a rational (\<open>rat\<close>). The fractional values that only appear inside log lines
  are not computed.
\<close>

datatype exn = Error string

fun message :: "exn \<Rightarrow> string" where
  "message (Error m) = m"

text \<open>The configuration object (\<open>botConfig\<close>, lines 250-259). A field the code reads through
  \<open>||\<close> may be absent (\<open>None\<close>).\<close>

record config =
  fromToken :: string
  toToken :: string
  amount :: int
  minExpectedAmount :: "int option"
  slippage :: "string option"
  checkInterval :: int
  tradeCooldown :: int
  maxDailyTrades_cfg :: "rat option"

text \<open>The fields of the bot that the control loop reads and writes (constructor, lines 7-19).
  The connection, the API address and the wallet are fixed collaborators and carry no state
  of the loop.\<close>

record bot =
  config :: config
  isRunning :: bool
  tradeCount :: int
  maxDailyTrades :: rat

text \<open>One element of the array \<open>data\<close> of a quote response. Only the fields the code reads
  are kept: \<open>fromToken.tokenContractAddress\<close>, \<open>toToken.tokenContractAddress\<close>,
  \<open>fromTokenAmount\<close> and \<open>toTokenAmount\<close> (decimal strings).\<close>

record quote =
  fromTokenAddress :: string
  toTokenAddress :: string
  fromTokenAmount :: string
  toTokenAmount :: string

text \<open>One element of the array \<open>data\<close> of a swap-build response: the base64 transaction.\<close>

record txdata =
  tx :: string

text \<open>The outcome of an HTTP call through axios: the promise is rejected, or it resolves to a
  body with the fields \<open>code\<close>, \<open>msg\<close> and \<open>data\<close>.\<close>

datatype 'a api_result = Rejected exn | Response string string "'a list"

datatype logline =
    LogBalance int
  | LogErrCheckingBalance string
  | LogErrGettingQuote string
  | LogTxSent string
  | LogErrExecutingSwap string
  | LogLimitReached
  | LogInsufficient
  | LogCurrentQuote "int option"
  | LogErrShouldTrade string
  | LogStartingSwap
  | LogSwapping int "int option"
  | LogSwapCompleted string
  | LogTotalTrades int rat
  | LogSwapFailed string
  | LogStartingBot
  | LogChecking
  | LogCooldown int
  | LogConditionsNotMet
  | LogErrMainLoop string
  | LogRetrying
  | LogStopping

text \<open>The effects of the bot. \<open>HttpGetQuote\<close> carries \<open>fromTokenAddress\<close>, \<open>toTokenAddress\<close>,
  \<open>amount\<close> (sent as its decimal string) and \<open>slippage\<close>; \<open>HttpPostSwap\<close> carries the two
  addresses, the amount string and the slippage.\<close>

datatype event =
    Log logline
  | RpcGetBalance
  | HttpGetQuote string string int string
  | HttpPostSwap string string string string
  | RpcSendRawTransaction string
  | RpcConfirmTransaction string
  | Sleep int

type_synonym 'a comp = "event list \<times> (exn + 'a)"

definition returnE :: "'a \<Rightarrow> 'a comp" where
  "returnE x = ([], Inr x)"

definition throwE :: "exn \<Rightarrow> 'a comp" where
  "throwE e = ([], Inl e)"

definition emitE :: "event \<Rightarrow> unit comp" where
  "emitE ev = ([ev], Inr ())"

text \<open>Sequencing: the second part runs only when the first returned; its effects follow.\<close>

definition bindE :: "'a comp \<Rightarrow> ('a \<Rightarrow> 'b comp) \<Rightarrow> 'b comp" where
  "bindE m f =
     (case m of
        (t, Inl e) \<Rightarrow> (t, Inl e)
      | (t, Inr x) \<Rightarrow> (case f x of (t', r) \<Rightarrow> (t @ t', r)))"

text \<open>\<open>try { m } catch (error) { h error }\<close>.\<close>

definition catchE :: "'a comp \<Rightarrow> (exn \<Rightarrow> 'a comp) \<Rightarrow> 'a comp" where
  "catchE m h =
     (case m of
        (t, Inl e) \<Rightarrow> (case h e of (t', r) \<Rightarrow> (t @ t', r))
      | (t, Inr x) \<Rightarrow> (t, Inr x))"

text \<open>\<open>v || d\<close> on a number that may be absent: \<open>undefined\<close> and \<open>0\<close> are falsy.\<close>

fun num_or :: "('a::zero) option \<Rightarrow> 'a \<Rightarrow> 'a" where
  "num_or None d = d"
| "num_or (Some v) d = (if v = 0 then d else v)"

text \<open>\<open>s || d\<close> on a string that may be absent: \<open>undefined\<close> and the empty string are falsy.\<close>

fun str_or :: "string option \<Rightarrow> string \<Rightarrow> string" where
  "str_or None d = d"
| "str_or (Some s) d = (if s = [] then d else s)"

text \<open>Reading a property of \<open>data[0]\<close>: when the array is empty \<open>data[0]\<close> is \<open>undefined\<close>
  and the property access throws a TypeError.\<close>

definition getProp :: "'a option \<Rightarrow> ('a \<Rightarrow> 'b) \<Rightarrow> 'b comp" where
  "getProp obj field =
     (case obj of
        None \<Rightarrow> throwE (Error ''Cannot read properties of undefined'')
      | Some x \<Rightarrow> returnE (field x))"

definition first_elem :: "'a list \<Rightarrow> 'a option" where
  "first_elem xs = (case xs of [] \<Rightarrow> None | x # _ \<Rightarrow> Some x)"

subsection \<open>parseInt\<close>

text \<open>The builtin \<open>parseInt\<close> with no radix: leading white space is skipped, a sign is read,
  a prefix \<open>0x\<close> selects base 16, and the longest run of digits is converted; with no digit
  the result is \<open>NaN\<close> (\<open>None\<close>). The rounding of values beyond 2^53 is not modelled.\<close>

definition is_space :: "char \<Rightarrow> bool" where
  "is_space c = (of_char c \<in> {9, 10, 11, 12, 13, 32 :: nat})"

definition digit_of :: "nat \<Rightarrow> char \<Rightarrow> nat option" where
  "digit_of radix c =
     (let n = (of_char c :: nat);
          d = (if 48 \<le> n \<and> n \<le> 57 then Some (n - 48)
               else if 97 \<le> n \<and> n \<le> 122 then Some (n - 87)
               else if 65 \<le> n \<and> n \<le> 90 then Some (n - 55)
               else None)
      in case d of
           None \<Rightarrow> None
         | Some v \<Rightarrow> if v < radix then Some v else None)"

fun digits_value :: "nat \<Rightarrow> char list \<Rightarrow> nat option \<Rightarrow> nat option" where
  "digits_value radix [] acc = acc"
| "digits_value radix (c # cs) acc =
     (case digit_of radix c of
        None \<Rightarrow> acc
      | Some v \<Rightarrow>
          digits_value radix cs
            (Some ((case acc of None \<Rightarrow> 0 | Some a \<Rightarrow> a) * radix + v)))"

definition is_hex_prefix :: "char list \<Rightarrow> bool" where
  "is_hex_prefix s = (take 2 s = ''0x'' \<or> take 2 s = ''0X'')"

definition parseInt :: "string \<Rightarrow> int option" where
  "parseInt s =
     (let s1 = dropWhile is_space s;
          neg = (take 1 s1 = ''-'');
          s2 = (if take 1 s1 = ''-'' \<or> take 1 s1 = ''+'' then drop 1 s1 else s1);
          r = (if is_hex_prefix s2
               then digits_value 16 (drop 2 s2) None
               else digits_value 10 s2 None)
      in case r of
           None \<Rightarrow> None
         | Some n \<Rightarrow> Some (if neg then - int n else int n))"

text \<open>\<open>x >= m\<close> where \<open>x\<close> may be \<open>NaN\<close>: every comparison with \<open>NaN\<close> is false.\<close>

fun num_ge :: "int option \<Rightarrow> int \<Rightarrow> bool" where
  "num_ge None m = False"
| "num_ge (Some x) m = (x \<ge> m)"

section \<open>The methods of the bot\<close>

text \<open>The constructor (lines 7-19): the trade count starts at 0 and the limit is
  \<open>config.maxDailyTrades || 50\<close>.\<close>

definition new_bot :: "config \<Rightarrow> bot" where
  "new_bot cfg =
     \<lparr> config = cfg, isRunning = False, tradeCount = 0,
       maxDailyTrades = num_or (maxDailyTrades_cfg cfg) 50 \<rparr>"

text \<open>\<open>checkBalance\<close> (lines 49-59). The argument \<open>resp\<close> is the outcome of
  \<open>connection.getBalance\<close>: a thrown error or the balance in lamports.\<close>

definition checkBalance :: "bot \<Rightarrow> exn + int \<Rightarrow> int comp" where
  "checkBalance b resp =
     catchE
       (bindE (emitE RpcGetBalance) (\<lambda>_.
          case resp of
            Inl e \<Rightarrow> throwE e
          | Inr balance \<Rightarrow>
              bindE (emitE (Log (LogBalance balance))) (\<lambda>_. returnE balance)))
       (\<lambda>error.
          bindE (emitE (Log (LogErrCheckingBalance (message error)))) (\<lambda>_. returnE 0))"

text \<open>\<open>getSwapQuote\<close> (lines 62-87). The argument \<open>resp\<close> is the outcome of the GET request.\<close>

definition getSwapQuote ::
  "bot \<Rightarrow> quote api_result \<Rightarrow> string \<Rightarrow> string \<Rightarrow> int \<Rightarrow> quote option comp" where
  "getSwapQuote b resp fromTok toTok amt =
     catchE
       (bindE (emitE (HttpGetQuote fromTok toTok amt (str_or (slippage (config b)) ''1''))) (\<lambda>_.
          case resp of
            Rejected e \<Rightarrow> throwE e
          | Response code msg dat \<Rightarrow>
              if code = ''0'' then returnE (first_elem dat)
              else throwE (Error (''API Error: '' @ msg))))
       (\<lambda>error.
          bindE (emitE (Log (LogErrGettingQuote (message error)))) (\<lambda>_. throwE error))"

text \<open>The fee margin of line 148: \<open>0.01 * 1000000000\<close> lamports.\<close>

definition feeMargin :: int where
  "feeMargin = 10000000"

text \<open>What the outside world answers during one call of \<open>shouldTrade\<close>.\<close>

record eval_env =
  balanceResp :: "exn + int"
  quoteResp :: "quote api_result"

text \<open>\<open>shouldTrade\<close> (lines 138-177).\<close>

definition shouldTrade :: "bot \<Rightarrow> eval_env \<Rightarrow> bool comp" where
  "shouldTrade b env =
     catchE
       (if of_int (tradeCount b) \<ge> maxDailyTrades b
        then bindE (emitE (Log LogLimitReached)) (\<lambda>_. returnE False)
        else
          bindE (checkBalance b (balanceResp env)) (\<lambda>balance.
            let requiredBalance = amount (config b) + feeMargin in
            if balance < requiredBalance
            then bindE (emitE (Log LogInsufficient)) (\<lambda>_. returnE False)
            else
              bindE (getSwapQuote b (quoteResp env) (fromToken (config b))
                       (toToken (config b)) (amount (config b))) (\<lambda>q.
              bindE (getProp q toTokenAmount) (\<lambda>amt.
                let expectedPump = parseInt amt;
                    minExpected = num_or (minExpectedAmount (config b)) 0 in
                bindE (emitE (Log (LogCurrentQuote expectedPump))) (\<lambda>_.
                  if num_ge expectedPump minExpected then returnE True
                  else returnE False)))))
       (\<lambda>error.
          bindE (emitE (Log (LogErrShouldTrade (message error)))) (\<lambda>_. returnE False))"

text \<open>Awaiting an outside call: a rejected promise is thrown at the \<open>await\<close>.\<close>

definition awaitE :: "exn + 'a \<Rightarrow> 'a comp" where
  "awaitE r = (case r of Inl e \<Rightarrow> throwE e | Inr x \<Rightarrow> returnE x)"

text \<open>What the outside world answers during one call of \<open>performSwap\<close>: the quote request,
  the swap-build request, the local deserialising and signing of the payload (the serialised
  transaction, or the error the SDK throws on a payload it cannot read), the broadcast (the
  signature) and the confirmation (\<open>confirmation.value.err\<close>, \<open>None\<close> for \<open>null\<close>).\<close>

record trade_env =
  tradeQuoteResp :: "quote api_result"
  swapResp :: "txdata api_result"
  signTx :: "string \<Rightarrow> exn + string"
  sendResp :: "exn + string"
  confirmResp :: "exn + string option"

text \<open>\<open>executeSwap\<close> (lines 90-135).\<close>

definition executeSwap :: "bot \<Rightarrow> trade_env \<Rightarrow> quote option \<Rightarrow> string comp" where
  "executeSwap b env quoteData =
     catchE
       (bindE (getProp quoteData fromTokenAddress) (\<lambda>fromA.
        bindE (getProp quoteData toTokenAddress) (\<lambda>toA.
        bindE (getProp quoteData fromTokenAmount) (\<lambda>amt.
        bindE (emitE (HttpPostSwap fromA toA amt (str_or (slippage (config b)) ''1''))) (\<lambda>_.
        bindE (case swapResp env of
                 Rejected e \<Rightarrow> throwE e
               | Response code msg dat \<Rightarrow>
                   if code \<noteq> ''0'' then throwE (Error (''Swap API Error: '' @ msg))
                   else returnE (first_elem dat)) (\<lambda>txData.
        bindE (getProp txData tx) (\<lambda>payload.
        bindE (awaitE (signTx env payload)) (\<lambda>raw.
        bindE (emitE (RpcSendRawTransaction raw)) (\<lambda>_.
        bindE (awaitE (sendResp env)) (\<lambda>signature.
        bindE (emitE (Log (LogTxSent signature))) (\<lambda>_.
        bindE (emitE (RpcConfirmTransaction signature)) (\<lambda>_.
        bindE (awaitE (confirmResp env)) (\<lambda>err.
          case err of
            Some reason \<Rightarrow> throwE (Error (''Transaction failed: '' @ reason))
          | None \<Rightarrow> returnE signature)))))))))))))
       (\<lambda>error.
          bindE (emitE (Log (LogErrExecutingSwap (message error)))) (\<lambda>_. throwE error))"

text \<open>\<open>performSwap\<close> (lines 180-203). Everything up to the return of \<open>executeSwap\<close> may throw;
  \<open>this.tradeCount++\<close> and the two log lines after it run only when it returned.\<close>

definition performSwap :: "bot \<Rightarrow> trade_env \<Rightarrow> event list \<times> (exn + string) \<times> bot" where
  "performSwap b env =
     (case
        bindE (emitE (Log LogStartingSwap)) (\<lambda>_.
        bindE (getSwapQuote b (tradeQuoteResp env) (fromToken (config b))
                 (toToken (config b)) (amount (config b))) (\<lambda>q.
        bindE (getProp q toTokenAmount) (\<lambda>amt.
        bindE (emitE (Log (LogSwapping (amount (config b)) (parseInt amt)))) (\<lambda>_.
          executeSwap b env q))))
      of
        (t, Inr signature) \<Rightarrow>
          (t @ [Log (LogSwapCompleted signature),
                Log (LogTotalTrades (tradeCount b + 1) (maxDailyTrades b))],
           Inr signature,
           b\<lparr>tradeCount := tradeCount b + 1\<rparr>)
      | (t, Inl error) \<Rightarrow>
          (t @ [Log (LogSwapFailed (message error))], Inl error, b))"

text \<open>\<open>stop\<close> (lines 238-241).\<close>

definition stop :: "bot \<Rightarrow> event list \<times> bot" where
  "stop b = ([Log LogStopping], b\<lparr>isRunning := False\<rparr>)"

section \<open>The control loop\<close>

text \<open>
  \<open>start\<close> (lines 206-235) runs on one thread and gives control away only at an \<open>await\<close>.
  A state of the loop is the bot, the \<open>await\<close> at which the loop is suspended, and the effects
  so far. While the loop is suspended the outside world does one of four things: it calls
  \<open>stop\<close>, it completes the pending \<open>shouldTrade\<close>, it completes the pending \<open>performSwap\<close>,
  or it fires the pending timer. The effects of an awaited method are recorded when the
  method completes.
\<close>

datatype pc =
    AwaitShouldTrade
  | AwaitPerformSwap
  | AwaitCooldown
  | AwaitInterval
  | AwaitRetry
  | Finished

record loop_state =
  self :: bot
  pc :: pc
  events :: "event list"

datatype input =
    StopCalled
  | ShouldTradeDone eval_env
  | PerformSwapDone trade_env
  | TimerFired

text \<open>The delay of the \<open>catch\<close> of the loop body (line 232).\<close>

definition retryDelay :: int where
  "retryDelay = 30000"

text \<open>The test \<open>while (this.isRunning)\<close> (line 210) and the body up to its first \<open>await\<close>.\<close>

definition loop_head :: "loop_state \<Rightarrow> loop_state" where
  "loop_head s =
     (if isRunning (self s)
      then s\<lparr>pc := AwaitShouldTrade, events := events s @ [Log LogChecking]\<rparr>
      else s\<lparr>pc := Finished\<rparr>)"

text \<open>The \<open>catch\<close> of the loop body (lines 229-233).\<close>

definition loop_catch :: "loop_state \<Rightarrow> exn \<Rightarrow> loop_state" where
  "loop_catch s error =
     s\<lparr>pc := AwaitRetry,
       events := events s @ [Log (LogErrMainLoop (message error)), Log LogRetrying,
                             Sleep retryDelay]\<rparr>"

text \<open>\<open>start\<close> up to the first \<open>await\<close> (lines 206-214): the flag is set, then the test of
  the loop is made for the first time (the \<open>pc\<close> given here is overwritten by it).\<close>

definition start :: "bot \<Rightarrow> loop_state" where
  "start b =
     loop_head \<lparr>self = b\<lparr>isRunning := True\<rparr>, pc = Finished, events = [Log LogStartingBot]\<rparr>"

text \<open>One move of the outside world. An input that does not match the pending \<open>await\<close>
  cannot happen and leaves the state as it is.\<close>

fun step :: "loop_state \<Rightarrow> input \<Rightarrow> loop_state" where
  "step s StopCalled =
     (case stop (self s) of (t, b') \<Rightarrow> s\<lparr>self := b', events := events s @ t\<rparr>)"
| "step s (ShouldTradeDone env) =
     (if pc s = AwaitShouldTrade then
        (case shouldTrade (self s) env of
           (t, Inr d) \<Rightarrow>
             if d then s\<lparr>pc := AwaitPerformSwap, events := events s @ t\<rparr>
             else s\<lparr>pc := AwaitInterval,
                    events := events s @ t @ [Log LogConditionsNotMet,
                                              Sleep (checkInterval (config (self s)))]\<rparr>
         | (t, Inl error) \<Rightarrow> loop_catch (s\<lparr>events := events s @ t\<rparr>) error)
      else s)"
| "step s (PerformSwapDone env) =
     (if pc s = AwaitPerformSwap then
        (case performSwap (self s) env of
           (t, Inr signature, b') \<Rightarrow>
             s\<lparr>self := b', pc := AwaitCooldown,
               events := events s @ t @ [Log (LogCooldown (tradeCooldown (config b'))),
                                         Sleep (tradeCooldown (config b'))]\<rparr>
         | (t, Inl error, b') \<Rightarrow> loop_catch (s\<lparr>self := b', events := events s @ t\<rparr>) error)
      else s)"
| "step s TimerFired =
     (case pc s of
        AwaitCooldown \<Rightarrow>
          s\<lparr>pc := AwaitInterval,
            events := events s @ [Sleep (checkInterval (config (self s)))]\<rparr>
      | AwaitInterval \<Rightarrow> loop_head s
      | AwaitRetry \<Rightarrow> loop_head s
      | _ \<Rightarrow> s)"

definition run :: "loop_state \<Rightarrow> input list \<Rightarrow> loop_state" where
  "run s ins = foldl step s ins"

text \<open>The configuration of the repository (lines 250-259).\<close>

definition botConfig :: config where
  "botConfig =
     \<lparr> fromToken = ''11111111111111111111111111111111'',
       toToken = ''pumpCmXqMfrsAkQ5r49WcJnRayYRqmXz6ae8H7H9Dfn'',
       amount = 100000000,
       minExpectedAmount = Some 1000000,
       slippage = Some ''2'',
       checkInterval = 60000,
       tradeCooldown = 300000,
       maxDailyTrades_cfg = Some 20 \<rparr>"

section \<open>Vocabulary of the properties\<close>

text \<open>The effects that leave the process: the RPC calls and the HTTP requests.\<close>

definition is_network_call :: "event \<Rightarrow> bool" where
  "is_network_call ev =
     (case ev of
        RpcGetBalance \<Rightarrow> True
      | HttpGetQuote _ _ _ _ \<Rightarrow> True
      | HttpPostSwap _ _ _ _ \<Rightarrow> True
      | RpcSendRawTransaction _ \<Rightarrow> True
      | RpcConfirmTransaction _ \<Rightarrow> True
      | _ \<Rightarrow> False)"

definition is_quote_request :: "event \<Rightarrow> bool" where
  "is_quote_request ev = (case ev of HttpGetQuote _ _ _ _ \<Rightarrow> True | _ \<Rightarrow> False)"

text \<open>The error with which a quote lookup fails, if it fails: the rejection of the request,
  or the application error of a body whose code is not \<open>'0'\<close>.\<close>

definition quote_error :: "'a api_result \<Rightarrow> exn option" where
  "quote_error resp =
     (case resp of
        Rejected e \<Rightarrow> Some e
      | Response code msg dat \<Rightarrow>
          if code = ''0'' then None else Some (Error (''API Error: '' @ msg)))"

text \<open>The number \<open>shouldTrade\<close> compares with the required balance.\<close>

definition balance_seen :: "exn + int \<Rightarrow> int" where
  "balance_seen resp = (case resp of Inl _ \<Rightarrow> 0 | Inr x \<Rightarrow> x)"

text \<open>The delays of the sleeps among some effects, in order.\<close>

fun sleeps :: "event list \<Rightarrow> int list" where
  "sleeps [] = []"
| "sleeps (Sleep ms # evs) = ms # sleeps evs"
| "sleeps (_ # evs) = sleeps evs"

text \<open>The loop is evaluating or trading.\<close>

definition in_tick :: "pc \<Rightarrow> bool" where
  "in_tick p = (p = AwaitShouldTrade \<or> p = AwaitPerformSwap)"

text \<open>The number of trades the iteration in progress can still complete.\<close>

definition pending_trades :: "pc \<Rightarrow> int" where
  "pending_trades p = (if in_tick p then 1 else 0)"

text \<open>The invariant of the loop: the count is 0 or less than one trade above the limit, and
  strictly below the limit while a trade is in flight.\<close>

definition limit_inv :: "loop_state \<Rightarrow> bool" where
  "limit_inv s =
     ((tradeCount (self s) = 0 \<or>
       of_int (tradeCount (self s)) < maxDailyTrades (self s) + 1) \<and>
      (pc s = AwaitPerformSwap \<longrightarrow>
         of_int (tradeCount (self s)) < maxDailyTrades (self s)))"



subsection \<open>Concrete inputs\<close>

text \<open>The scenario of the specification: the trade size is 100000000, the minimum expected
  amount 1000000, and the quote returns the destination amount 2000000.\<close>

definition scenario_quote :: quote where
  "scenario_quote =
     \<lparr> fromTokenAddress = ''11111111111111111111111111111111'',
       toTokenAddress = ''pumpCmXqMfrsAkQ5r49WcJnRayYRqmXz6ae8H7H9Dfn'',
       fromTokenAmount = ''100000000'',
       toTokenAmount = ''2000000'' \<rparr>"

definition scenario_env :: eval_env where
  "scenario_env =
     \<lparr> balanceResp = Inr 1000000000,
       quoteResp = Response ''0'' [] [scenario_quote] \<rparr>"

definition scenario_trade_env :: trade_env where
  "scenario_trade_env =
     \<lparr> tradeQuoteResp = Response ''0'' [] [scenario_quote],
       swapResp = Response ''0'' [] [\<lparr>tx = ''AQAB''\<rparr>],
       signTx = (\<lambda>payload. Inr (''signed:'' @ payload)),
       sendResp = Inr ''5sig'',
       confirmResp = Inr None \<rparr>"

text \<open>The same trade when the ledger reports the transaction as failed.\<close>

definition failing_trade_env :: trade_env where
  "failing_trade_env = scenario_trade_env\<lparr>confirmResp := Inr (Some ''InstructionError'')\<rparr>"


text \<open>A bot whose limit is 5 and that has made 5 trades.\<close>

definition limit_bot :: bot where
  "limit_bot = (new_bot (botConfig\<lparr>maxDailyTrades_cfg := Some 5\<rparr>))\<lparr>tradeCount := 5\<rparr>"

section \<open>Properties of the decision procedure\<close>

lemmas comp_defs = bindE_def catchE_def emitE_def returnE_def throwE_def getProp_def awaitE_def

lemmas eval_defs = new_bot_def botConfig_def scenario_env_def scenario_quote_def
  feeMargin_def parseInt_def is_space_def is_hex_prefix_def digit_of_def

lemma checkBalance_eq:
  "checkBalance b resp =
     (case resp of
        Inl e \<Rightarrow> ([RpcGetBalance, Log (LogErrCheckingBalance (message e))], Inr 0)
      | Inr x \<Rightarrow> ([RpcGetBalance, Log (LogBalance x)], Inr x))"
  by (simp add: checkBalance_def comp_defs split: sum.splits)

lemma getSwapQuote_eq:
  "getSwapQuote b resp f t a =
     (case quote_error resp of
        Some e \<Rightarrow> ([HttpGetQuote f t a (str_or (slippage (config b)) ''1''),
                    Log (LogErrGettingQuote (message e))], Inl e)
      | None \<Rightarrow> ([HttpGetQuote f t a (str_or (slippage (config b)) ''1'')],
                 Inr (case resp of Response _ _ dat \<Rightarrow> first_elem dat | _ \<Rightarrow> None)))"
  by (simp add: getSwapQuote_def quote_error_def comp_defs split: api_result.splits)

lemma catchE_returns:
  assumes "\<And>e. \<exists>t x. h e = (t, Inr x)"
  shows "\<exists>t x. catchE m h = (t, Inr x)"
proof (cases m)
  case (Pair t r)
  show ?thesis
  proof (cases r)
    case (Inl e)
    from assms[of e] obtain t' x where "h e = (t', Inr x)" by blast
    with Pair Inl show ?thesis by (simp add: catchE_def)
  next
    case (Inr x)
    with Pair show ?thesis by (simp add: catchE_def)
  qed
qed

lemma shouldTrade_returns: "\<exists>t d. shouldTrade b env = (t, Inr d)"
  unfolding shouldTrade_def
  by (rule catchE_returns) (auto simp add: bindE_def emitE_def returnE_def)

lemma shouldTrade_limit:
  "of_int (tradeCount b) \<ge> maxDailyTrades b \<Longrightarrow>
   shouldTrade b env = ([Log LogLimitReached], Inr False)"
  by (simp add: shouldTrade_def comp_defs)

lemma shouldTrade_insufficient:
  "of_int (tradeCount b) < maxDailyTrades b \<Longrightarrow>
   balance_seen (balanceResp env) < amount (config b) + feeMargin \<Longrightarrow>
   shouldTrade b env =
     (fst (checkBalance b (balanceResp env)) @ [Log LogInsufficient], Inr False)"
  by (simp add: shouldTrade_def checkBalance_eq comp_defs balance_seen_def Let_def
      split: sum.splits)

lemma shouldTrade_quote_fails:
  "of_int (tradeCount b) < maxDailyTrades b \<Longrightarrow>
   \<not> balance_seen (balanceResp env) < amount (config b) + feeMargin \<Longrightarrow>
   quote_error (quoteResp env) = Some e \<Longrightarrow>
   shouldTrade b env =
     (fst (checkBalance b (balanceResp env)) @
      [HttpGetQuote (fromToken (config b)) (toToken (config b)) (amount (config b))
         (str_or (slippage (config b)) ''1''),
       Log (LogErrGettingQuote (message e)), Log (LogErrShouldTrade (message e))],
      Inr False)"
  by (simp add: shouldTrade_def checkBalance_eq getSwapQuote_eq comp_defs balance_seen_def
      Let_def split: sum.splits)

lemma shouldTrade_quote_ok:
  "of_int (tradeCount b) < maxDailyTrades b \<Longrightarrow>
   \<not> balance_seen (balanceResp env) < amount (config b) + feeMargin \<Longrightarrow>
   quoteResp env = Response ''0'' msg (q # qs) \<Longrightarrow>
   shouldTrade b env =
     (fst (checkBalance b (balanceResp env)) @
      [HttpGetQuote (fromToken (config b)) (toToken (config b)) (amount (config b))
         (str_or (slippage (config b)) ''1''),
       Log (LogCurrentQuote (parseInt (toTokenAmount q)))],
      Inr (num_ge (parseInt (toTokenAmount q)) (num_or (minExpectedAmount (config b)) 0)))"
  by (simp add: shouldTrade_def checkBalance_eq getSwapQuote_eq quote_error_def first_elem_def
      comp_defs balance_seen_def Let_def split: sum.splits)

lemma shouldTrade_true_limit:
  "shouldTrade b env = (t, Inr True) \<Longrightarrow> of_int (tradeCount b) < maxDailyTrades b"
  using shouldTrade_limit[of b env] by (cases "of_int (tradeCount b) < maxDailyTrades b") auto

text \<open>Claim C2. Once the trade count has reached the limit, \<open>shouldTrade\<close> answers false
  whatever the balance and the quote would be, and its only effect is the log line: no balance
  query and no quote request is made.\<close>

theorem shouldTrade_limit_reached:
  "maxDailyTrades b \<le> of_int (tradeCount b) \<Longrightarrow>
   shouldTrade b env = ([Log LogLimitReached], Inr False) \<and>
   list_all (\<lambda>ev. \<not> is_network_call ev) (fst (shouldTrade b env))"
  by (simp add: shouldTrade_limit is_network_call_def)

text \<open>The scenario of the specification: limit and count both 5, with a balance and a quote
  that would otherwise allow the trade.\<close>

theorem shouldTrade_limit_reached_witness:
  "maxDailyTrades limit_bot \<le> of_int (tradeCount limit_bot) \<and>
   maxDailyTrades limit_bot = 5 \<and>
   shouldTrade limit_bot scenario_env = ([Log LogLimitReached], Inr False)"
  using shouldTrade_limit_reached[of limit_bot scenario_env]
  by (simp add: limit_bot_def new_bot_def botConfig_def)

text \<open>Claim C5. When the ledger reports a balance below the trade amount plus the fee margin,
  \<open>shouldTrade\<close> answers false and no quote is requested, whatever the quote would be.\<close>

theorem shouldTrade_insufficient_balance:
  "balanceResp env = Inr bal \<Longrightarrow> bal < amount (config b) + feeMargin \<Longrightarrow>
   snd (shouldTrade b env) = Inr False \<and>
   list_all (\<lambda>ev. \<not> is_quote_request ev) (fst (shouldTrade b env))"
  by (cases "of_int (tradeCount b) < maxDailyTrades b")
     (simp_all add: shouldTrade_limit shouldTrade_insufficient balance_seen_def
        checkBalance_eq is_quote_request_def)

text \<open>One lamport below the required balance the decision is false; at the required balance
  the same quote is accepted.\<close>

theorem shouldTrade_insufficient_balance_witness:
  "(109999999::int) < amount (config (new_bot botConfig)) + feeMargin \<and>
   snd (shouldTrade (new_bot botConfig) (scenario_env\<lparr>balanceResp := Inr 109999999\<rparr>)) =
     Inr False \<and>
   snd (shouldTrade (new_bot botConfig) (scenario_env\<lparr>balanceResp := Inr 110000000\<rparr>)) =
     Inr True"
  using shouldTrade_insufficient_balance
          [of "scenario_env\<lparr>balanceResp := Inr 109999999\<rparr>" 109999999 "new_bot botConfig"]
  by (simp add: eval_defs balance_seen_def
        shouldTrade_quote_ok[where msg="[]" and q=scenario_quote and qs="[]"])

text \<open>Claim C10. When the configuration has no \<open>minExpectedAmount\<close> the threshold is 0, and
  a quote whose parsed destination amount is a non-negative integer passes the threshold step:
  the decision is then exactly "the limit is not reached and the balance suffices".\<close>

theorem shouldTrade_default_threshold:
  "minExpectedAmount (config b) = None \<Longrightarrow>
   quoteResp env = Response ''0'' msg (q # qs) \<Longrightarrow>
   parseInt (toTokenAmount q) = Some n \<Longrightarrow> 0 \<le> n \<Longrightarrow>
   num_or (minExpectedAmount (config b)) 0 = 0 \<and>
   snd (shouldTrade b env) =
     Inr (of_int (tradeCount b) < maxDailyTrades b \<and>
          amount (config b) + feeMargin \<le> balance_seen (balanceResp env))"
proof -
  assume a: "minExpectedAmount (config b) = None"
    "quoteResp env = Response ''0'' msg (q # qs)"
    "parseInt (toTokenAmount q) = Some n" "0 \<le> n"
  consider (lim) "maxDailyTrades b \<le> of_int (tradeCount b)"
    | (ins) "of_int (tradeCount b) < maxDailyTrades b"
        "balance_seen (balanceResp env) < amount (config b) + feeMargin"
    | (ok) "of_int (tradeCount b) < maxDailyTrades b"
        "\<not> balance_seen (balanceResp env) < amount (config b) + feeMargin"
    by linarith
  then show ?thesis
  proof cases
    case lim then show ?thesis using a by (simp add: shouldTrade_limit)
  next
    case ins then show ?thesis using a by (simp add: shouldTrade_insufficient)
  next
    case ok then show ?thesis using a by (simp add: shouldTrade_quote_ok[OF ok a(2)])
  qed
qed

text \<open>With no threshold configured, a quote of 0 tokens is accepted.\<close>

theorem shouldTrade_default_threshold_witness:
  "parseInt ''0'' = Some 0 \<and>
   snd (shouldTrade (new_bot (botConfig\<lparr>minExpectedAmount := None\<rparr>))
     (scenario_env\<lparr>quoteResp :=
        Response ''0'' [] [scenario_quote\<lparr>toTokenAmount := ''0''\<rparr>]\<rparr>)) = Inr True"
  using shouldTrade_default_threshold
    [of "new_bot (botConfig\<lparr>minExpectedAmount := None\<rparr>)"
        "scenario_env\<lparr>quoteResp :=
           Response ''0'' [] [scenario_quote\<lparr>toTokenAmount := ''0''\<rparr>]\<rparr>"
        "[]" "scenario_quote\<lparr>toTokenAmount := ''0''\<rparr>" "[]" 0]
  by (simp add: eval_defs balance_seen_def)

text \<open>Claim C3, as the specification states it: every failure of the balance lookup makes
  \<open>shouldTrade\<close> answer false. This is false: \<open>checkBalance\<close> turns the failure into the
  balance 0 (line 57), and \<open>shouldTrade\<close> compares 0 with \<open>amount + 10000000\<close> (lines
  148-150). With the configured amount -20000000 the required balance is -10000000, the
  balance 0 is not below it, the quote is requested, and the decision is true.\<close>

theorem balance_failure_can_answer_true:
  "shouldTrade (new_bot (botConfig\<lparr>amount := - 20000000\<rparr>))
     (scenario_env\<lparr>balanceResp := Inl (Error ''fetch failed'')\<rparr>) =
   ([RpcGetBalance, Log (LogErrCheckingBalance ''fetch failed''),
     HttpGetQuote (fromToken botConfig) (toToken botConfig) (- 20000000) ''2'',
     Log (LogCurrentQuote (Some 2000000))],
    Inr True)"
  by (simp add: shouldTrade_def checkBalance_def getSwapQuote_def comp_defs eval_defs
      first_elem_def)

text \<open>Claim C3, amended. \<open>shouldTrade\<close> never throws: it always returns a decision. When the
  quote lookup fails (the request is rejected or the service answers with an error code) the
  decision is false and the last effect is a log line giving the reason. When the balance
  lookup fails and the required balance \<open>amount + 10000000\<close> is positive (so for every
  non-negative trade amount), the decision is false and the failure is logged.\<close>

theorem shouldTrade_never_raises:
  "(\<exists>t d. shouldTrade b env = (t, Inr d)) \<and>
   (quote_error (quoteResp env) = Some e \<longrightarrow>
      snd (shouldTrade b env) = Inr False \<and>
      fst (shouldTrade b env) \<noteq> [] \<and>
      last (fst (shouldTrade b env)) \<in>
        {Log LogLimitReached, Log LogInsufficient, Log (LogErrShouldTrade (message e))}) \<and>
   (balanceResp env = Inl e' \<and> 0 < amount (config b) + feeMargin \<longrightarrow>
      shouldTrade b env = ([Log LogLimitReached], Inr False) \<or>
      shouldTrade b env =
        ([RpcGetBalance, Log (LogErrCheckingBalance (message e')), Log LogInsufficient],
         Inr False))"
proof (intro conjI impI)
  show "\<exists>t d. shouldTrade b env = (t, Inr d)" by (rule shouldTrade_returns)
next
  assume q: "quote_error (quoteResp env) = Some e"
  consider (lim) "maxDailyTrades b \<le> of_int (tradeCount b)"
    | (ins) "of_int (tradeCount b) < maxDailyTrades b"
        "balance_seen (balanceResp env) < amount (config b) + feeMargin"
    | (ok) "of_int (tradeCount b) < maxDailyTrades b"
        "\<not> balance_seen (balanceResp env) < amount (config b) + feeMargin"
    by linarith
  then have "snd (shouldTrade b env) = Inr False \<and>
      fst (shouldTrade b env) \<noteq> [] \<and>
      last (fst (shouldTrade b env)) \<in>
        {Log LogLimitReached, Log LogInsufficient, Log (LogErrShouldTrade (message e))}"
  proof cases
    case lim then show ?thesis by (simp add: shouldTrade_limit)
  next
    case ins then show ?thesis by (simp add: shouldTrade_insufficient)
  next
    case ok then show ?thesis by (simp add: shouldTrade_quote_fails[OF ok q])
  qed
  then show "snd (shouldTrade b env) = Inr False"
    and "fst (shouldTrade b env) \<noteq> []"
    and "last (fst (shouldTrade b env)) \<in>
        {Log LogLimitReached, Log LogInsufficient, Log (LogErrShouldTrade (message e))}"
    by blast+
next
  assume "balanceResp env = Inl e' \<and> 0 < amount (config b) + feeMargin"
  then have f: "balanceResp env = Inl e'" and p: "0 < amount (config b) + feeMargin"
    by blast+
  show "shouldTrade b env = ([Log LogLimitReached], Inr False) \<or>
      shouldTrade b env =
        ([RpcGetBalance, Log (LogErrCheckingBalance (message e')), Log LogInsufficient],
         Inr False)"
  proof (cases "of_int (tradeCount b) < maxDailyTrades b")
    case True
    have "balance_seen (balanceResp env) < amount (config b) + feeMargin"
      using f p by (simp add: balance_seen_def)
    from shouldTrade_insufficient[OF True this] show ?thesis
      using f by (simp add: checkBalance_eq)
  next
    case False
    then show ?thesis by (simp add: shouldTrade_limit)
  qed
qed

text \<open>A quote request answered with an error code, and a balance lookup that throws.\<close>

theorem shouldTrade_never_raises_witness:
  "quote_error (Response ''51000'' ''Parameter error'' ([]::quote list)) =
     Some (Error ''API Error: Parameter error'') \<and>
   0 < amount (config (new_bot botConfig)) + feeMargin \<and>
   shouldTrade (new_bot botConfig)
     (scenario_env\<lparr>quoteResp := Response ''51000'' ''Parameter error'' []\<rparr>) =
     ([RpcGetBalance, Log (LogBalance 1000000000),
       HttpGetQuote (fromToken botConfig) (toToken botConfig) 100000000 ''2'',
       Log (LogErrGettingQuote ''API Error: Parameter error''),
       Log (LogErrShouldTrade ''API Error: Parameter error'')], Inr False) \<and>
   shouldTrade (new_bot botConfig)
     (scenario_env\<lparr>balanceResp := Inl (Error ''fetch failed'')\<rparr>) =
     ([RpcGetBalance, Log (LogErrCheckingBalance ''fetch failed''), Log LogInsufficient],
      Inr False)"
proof -
  have q: "shouldTrade (new_bot botConfig)
     (scenario_env\<lparr>quoteResp := Response ''51000'' ''Parameter error'' []\<rparr>) =
     ([RpcGetBalance, Log (LogBalance 1000000000),
       HttpGetQuote (fromToken botConfig) (toToken botConfig) 100000000 ''2'',
       Log (LogErrGettingQuote ''API Error: Parameter error''),
       Log (LogErrShouldTrade ''API Error: Parameter error'')], Inr False)"
    by (simp add: shouldTrade_def checkBalance_def getSwapQuote_def comp_defs eval_defs)
  have l: "shouldTrade (new_bot botConfig)
      (scenario_env\<lparr>balanceResp := Inl (Error ''fetch failed'')\<rparr>) \<noteq>
      ([Log LogLimitReached], Inr False)"
    by (simp add: shouldTrade_def checkBalance_def getSwapQuote_def comp_defs eval_defs)
  show ?thesis
    using q l
      shouldTrade_never_raises
        [of "new_bot botConfig" "scenario_env\<lparr>balanceResp := Inl (Error ''fetch failed'')\<rparr>"
            "Error ''none''" "Error ''fetch failed''"]
      shouldTrade_never_raises
        [of "new_bot botConfig"
            "scenario_env\<lparr>quoteResp := Response ''51000'' ''Parameter error'' []\<rparr>"
            "Error ''API Error: Parameter error''" "Error ''none''"]
    by (simp add: quote_error_def new_bot_def botConfig_def scenario_env_def feeMargin_def)
qed

text \<open>Claim C6, as the specification states it: a failed balance lookup makes the balance
  operation fail, and the caller does not take the balance for zero. This is false:
  \<open>checkBalance\<close> catches the error and returns 0, and \<open>shouldTrade\<close> then reports an
  insufficient balance.\<close>

theorem checkBalance_failure_returns_zero:
  "checkBalance (new_bot botConfig) (Inl (Error ''fetch failed'')) =
     ([RpcGetBalance, Log (LogErrCheckingBalance ''fetch failed'')], Inr 0) \<and>
   shouldTrade (new_bot botConfig)
     (scenario_env\<lparr>balanceResp := Inl (Error ''fetch failed'')\<rparr>) =
     ([RpcGetBalance, Log (LogErrCheckingBalance ''fetch failed''), Log LogInsufficient],
      Inr False)"
  by (simp add: shouldTrade_def checkBalance_def getSwapQuote_def comp_defs eval_defs)

text \<open>Claim C6, amended. When the balance lookup fails, \<open>checkBalance\<close> does not fail: it
  logs the error and returns 0. \<open>shouldTrade\<close> decides exactly as it does for a reported
  balance of 0; when the trade amount is not negative the decision is false and no quote is
  requested, so a failed lookup never leads to a trade.\<close>

theorem balance_failure_treated_as_zero:
  "checkBalance b (Inl e) =
     ([RpcGetBalance, Log (LogErrCheckingBalance (message e))], Inr 0) \<and>
   snd (shouldTrade b (env\<lparr>balanceResp := Inl e\<rparr>)) =
     snd (shouldTrade b (env\<lparr>balanceResp := Inr 0\<rparr>)) \<and>
   (0 \<le> amount (config b) \<longrightarrow>
      snd (shouldTrade b (env\<lparr>balanceResp := Inl e\<rparr>)) = Inr False \<and>
      list_all (\<lambda>ev. \<not> is_quote_request ev)
        (fst (shouldTrade b (env\<lparr>balanceResp := Inl e\<rparr>))))"
proof (intro conjI impI)
  show "checkBalance b (Inl e) =
     ([RpcGetBalance, Log (LogErrCheckingBalance (message e))], Inr 0)"
    by (simp add: checkBalance_eq)
  show "snd (shouldTrade b (env\<lparr>balanceResp := Inl e\<rparr>)) =
     snd (shouldTrade b (env\<lparr>balanceResp := Inr 0\<rparr>))"
    by (simp add: shouldTrade_def checkBalance_eq comp_defs Let_def
        split: prod.splits sum.splits)
next
  assume p: "0 \<le> amount (config b)"
  let ?env = "env\<lparr>balanceResp := Inl e\<rparr>"
  have low: "balance_seen (balanceResp ?env) < amount (config b) + feeMargin"
    using p by (simp add: balance_seen_def feeMargin_def)
  show "snd (shouldTrade b ?env) = Inr False"
    using low by (cases "of_int (tradeCount b) < maxDailyTrades b")
      (simp_all add: shouldTrade_limit shouldTrade_insufficient)
  show "list_all (\<lambda>ev. \<not> is_quote_request ev) (fst (shouldTrade b ?env))"
    using low by (cases "of_int (tradeCount b) < maxDailyTrades b")
      (simp_all add: shouldTrade_limit shouldTrade_insufficient checkBalance_eq
         is_quote_request_def)
qed

theorem balance_failure_treated_as_zero_witness:
  "(0::int) \<le> amount (config (new_bot botConfig)) \<and>
   snd (shouldTrade (new_bot botConfig)
     (scenario_env\<lparr>balanceResp := Inl (Error ''fetch failed'')\<rparr>)) = Inr False"
proof -
  have p: "(0::int) \<le> amount (config (new_bot botConfig))"
    by (simp add: new_bot_def botConfig_def)
  from balance_failure_treated_as_zero
         [of "new_bot botConfig" "Error ''fetch failed''" scenario_env] p
  show ?thesis by blast
qed

text \<open>Claim C9, as the specification states it: the quote operation rejects an amount that
  is not a positive integer before it contacts the service. This is false: with the amounts
  -5 and 0 the request is sent and the quote of the service is returned.\<close>

theorem getSwapQuote_accepts_nonpositive_amount:
  "getSwapQuote (new_bot botConfig) (Response ''0'' [] [scenario_quote])
     (fromToken botConfig) (toToken botConfig) (- 5) =
   ([HttpGetQuote (fromToken botConfig) (toToken botConfig) (- 5) ''2''],
    Inr (Some scenario_quote)) \<and>
   getSwapQuote (new_bot botConfig) (Response ''0'' [] [scenario_quote])
     (fromToken botConfig) (toToken botConfig) 0 =
   ([HttpGetQuote (fromToken botConfig) (toToken botConfig) 0 ''2''],
    Inr (Some scenario_quote))"
  by (simp add: getSwapQuote_def comp_defs new_bot_def botConfig_def first_elem_def)

text \<open>Claim C9, amended. \<open>getSwapQuote\<close> does not validate the amount: for every amount its
  first effect is the request to the service carrying that amount, its result does not depend
  on the amount, and it fails exactly when the request is rejected or the service answers
  with a code other than \<open>'0'\<close>.\<close>

theorem getSwapQuote_no_validation:
  "hd (fst (getSwapQuote b resp f t amt)) =
     HttpGetQuote f t amt (str_or (slippage (config b)) ''1'') \<and>
   snd (getSwapQuote b resp f t amt) = snd (getSwapQuote b resp f t amt') \<and>
   (snd (getSwapQuote b resp f t amt) = Inl e) = (quote_error resp = Some e)"
  by (simp add: getSwapQuote_eq split: option.splits)

section \<open>Properties of the control loop\<close>

lemma sleeps_append: "sleeps (xs @ ys) = sleeps xs @ sleeps ys"
  by (induction xs rule: sleeps.induct) simp_all

lemma performSwap_ok:
  "performSwap b env = (t, Inr sg, b') \<Longrightarrow> b' = b\<lparr>tradeCount := tradeCount b + 1\<rparr>"
  by (auto simp add: performSwap_def split: prod.splits sum.splits)

lemma performSwap_fail:
  "performSwap b env = (t, Inl e, b') \<Longrightarrow> b' = b"
  by (auto simp add: performSwap_def split: prod.splits sum.splits)

lemma sleeps_bindE:
  assumes "sleeps (fst m) = []" and "\<And>x. sleeps (fst (f x)) = []"
  shows "sleeps (fst (bindE m f)) = []"
proof (cases m)
  case (Pair t r)
  show ?thesis
  proof (cases r)
    case (Inl e)
    with Pair assms(1) show ?thesis by (simp add: bindE_def)
  next
    case (Inr x)
    with Pair assms(1) assms(2)[of x] show ?thesis
      by (auto simp add: bindE_def sleeps_append split: prod.splits)
  qed
qed

lemma sleeps_catchE:
  assumes "sleeps (fst m) = []" and "\<And>e. sleeps (fst (h e)) = []"
  shows "sleeps (fst (catchE m h)) = []"
proof (cases m)
  case (Pair t r)
  show ?thesis
  proof (cases r)
    case (Inl e)
    with Pair assms(1) assms(2)[of e] show ?thesis
      by (auto simp add: catchE_def sleeps_append split: prod.splits)
  next
    case (Inr x)
    with Pair assms(1) show ?thesis by (simp add: catchE_def)
  qed
qed

lemma sleeps_basic:
  "sleeps (fst (returnE x)) = []"
  "sleeps (fst (throwE e)) = []"
  "sleeps (fst (getProp obj field)) = []"
  "sleeps (fst (awaitE r)) = []"
  "sleeps (fst (emitE (Log l))) = []"
  "sleeps (fst (emitE (HttpGetQuote f t a sl))) = []"
  "sleeps (fst (emitE (HttpPostSwap f t a' sl))) = []"
  "sleeps (fst (emitE (RpcSendRawTransaction raw))) = []"
  "sleeps (fst (emitE (RpcConfirmTransaction sg))) = []"
  by (simp_all add: returnE_def throwE_def getProp_def awaitE_def emitE_def
      split: option.splits sum.splits)

lemma sleeps_getSwapQuote: "sleeps (fst (getSwapQuote b resp f t a)) = []"
  by (simp add: getSwapQuote_eq split: option.splits)

lemma sleeps_executeSwap: "sleeps (fst (executeSwap b env q)) = []"
  unfolding executeSwap_def
  by (intro sleeps_catchE sleeps_bindE sleeps_basic)
     (simp_all add: sleeps_basic split: api_result.splits option.splits)

lemma sleeps_performSwap: "sleeps (fst (performSwap b env)) = []"
proof -
  let ?m = "bindE (emitE (Log LogStartingSwap)) (\<lambda>_.
        bindE (getSwapQuote b (tradeQuoteResp env) (fromToken (config b))
                 (toToken (config b)) (amount (config b))) (\<lambda>q.
        bindE (getProp q toTokenAmount) (\<lambda>amt.
        bindE (emitE (Log (LogSwapping (amount (config b)) (parseInt amt)))) (\<lambda>_.
          executeSwap b env q))))"
  have "sleeps (fst ?m) = []"
    by (intro sleeps_bindE sleeps_basic sleeps_getSwapQuote sleeps_executeSwap)
  then show ?thesis
    by (cases ?m) (auto simp add: performSwap_def sleeps_append split: sum.splits)
qed

lemma limit_inv_step: "limit_inv s \<Longrightarrow> limit_inv (step s i)"
proof (cases i)
  case StopCalled
  assume "limit_inv s"
  with StopCalled show ?thesis by (simp add: limit_inv_def stop_def)
next
  case (ShouldTradeDone env)
  assume a: "limit_inv s"
  obtain t d where e: "shouldTrade (self s) env = (t, Inr d)"
    using shouldTrade_returns by blast
  show ?thesis
  proof (cases d)
    case True
    with e have "of_int (tradeCount (self s)) < maxDailyTrades (self s)"
      by (simp add: shouldTrade_true_limit)
    with a e True ShouldTradeDone show ?thesis by (simp add: limit_inv_def)
  next
    case False
    with a e ShouldTradeDone show ?thesis by (simp add: limit_inv_def)
  qed
next
  case (PerformSwapDone env)
  assume a: "limit_inv s"
  obtain t r b' where e: "performSwap (self s) env = (t, r, b')"
    by (cases "performSwap (self s) env") auto
  show ?thesis
  proof (cases r)
    case (Inl err)
    with e have "b' = self s" by (simp add: performSwap_fail)
    with a e Inl PerformSwapDone show ?thesis by (simp add: limit_inv_def loop_catch_def)
  next
    case (Inr sg)
    with e have "b' = (self s)\<lparr>tradeCount := tradeCount (self s) + 1\<rparr>"
      by (simp add: performSwap_ok)
    with a e Inr PerformSwapDone show ?thesis by (auto simp add: limit_inv_def)
  qed
next
  case TimerFired
  assume "limit_inv s"
  with TimerFired show ?thesis
    by (cases "pc s") (simp_all add: limit_inv_def loop_head_def)
qed

lemma limit_inv_run: "limit_inv s \<Longrightarrow> limit_inv (run s ins)"
  unfolding run_def
  by (induction ins arbitrary: s) (simp_all add: limit_inv_step)

lemma limit_inv_start: "tradeCount b = 0 \<Longrightarrow> limit_inv (start b)"
  by (simp add: limit_inv_def start_def loop_head_def)

lemma limit_step: "maxDailyTrades (self (step s i)) = maxDailyTrades (self s)"
proof (cases i)
  case StopCalled
  then show ?thesis by (simp add: stop_def)
next
  case (ShouldTradeDone env)
  then show ?thesis
    by (simp add: loop_catch_def split: prod.splits sum.splits)
next
  case (PerformSwapDone env)
  obtain t r b' where e: "performSwap (self s) env = (t, r, b')"
    by (cases "performSwap (self s) env") auto
  show ?thesis
  proof (cases r)
    case (Inl err)
    with e have "b' = self s" by (simp add: performSwap_fail)
    with e Inl PerformSwapDone show ?thesis by (simp add: loop_catch_def)
  next
    case (Inr sg)
    with e have "b' = (self s)\<lparr>tradeCount := tradeCount (self s) + 1\<rparr>"
      by (simp add: performSwap_ok)
    with e Inr PerformSwapDone show ?thesis by simp
  qed
next
  case TimerFired
  then show ?thesis by (cases "pc s") (simp_all add: loop_head_def)
qed

lemma limit_run: "maxDailyTrades (self (run s ins)) = maxDailyTrades (self s)"
  unfolding run_def
  by (induction ins arbitrary: s) (simp_all add: limit_step)

lemma limit_start: "maxDailyTrades (self (start b)) = maxDailyTrades b"
  by (simp add: start_def loop_head_def)

subsection \<open>The scenario, evaluated\<close>

lemmas run_defs = run_def start_def loop_head_def loop_catch_def stop_def retryDelay_def
  shouldTrade_def checkBalance_def getSwapQuote_def performSwap_def executeSwap_def
  comp_defs eval_defs scenario_trade_env_def failing_trade_env_def first_elem_def

lemma scenario_trading:
  "run (start (new_bot botConfig)) [ShouldTradeDone scenario_env] =
     \<lparr> self = (new_bot botConfig)\<lparr>isRunning := True\<rparr>, pc = AwaitPerformSwap,
       events = [Log LogStartingBot, Log LogChecking, RpcGetBalance,
                 Log (LogBalance 1000000000),
                 HttpGetQuote (fromToken botConfig) (toToken botConfig) 100000000 ''2'',
                 Log (LogCurrentQuote (Some 2000000))] \<rparr>"
  by (simp add: run_defs)

lemma scenario_swap_ok:
  "snd (performSwap b scenario_trade_env) =
     (Inr ''5sig'', b\<lparr>tradeCount := tradeCount b + 1\<rparr>)"
  by (simp add: performSwap_def executeSwap_def getSwapQuote_def comp_defs
      scenario_trade_env_def scenario_quote_def first_elem_def)

lemma scenario_swap_fail:
  "snd (performSwap b failing_trade_env) =
     (Inl (Error ''Transaction failed: InstructionError''), b)"
  by (simp add: performSwap_def executeSwap_def getSwapQuote_def comp_defs
      scenario_trade_env_def failing_trade_env_def scenario_quote_def first_elem_def)

text \<open>Claim C1, as the specification states it: in every reachable state the trade count
  does not exceed the limit. This is false: the constructor takes the limit from the
  configuration as it is (\<open>config.maxDailyTrades || 50\<close>). With the limit -3 the count 0 of the
  first state is already above the limit; with the limit 1/2 the first evaluation finds
  0 below the limit, the trade is made, and the count 1 is above the limit.\<close>

theorem tradeCount_exceeds_odd_limit:
  "maxDailyTrades (self (run (start (new_bot (botConfig\<lparr>maxDailyTrades_cfg := Some (- 3)\<rparr>))) []))
     < of_int (tradeCount (self (run (start
         (new_bot (botConfig\<lparr>maxDailyTrades_cfg := Some (- 3)\<rparr>))) []))) \<and>
   maxDailyTrades (self (run (start (new_bot (botConfig\<lparr>maxDailyTrades_cfg := Some (1 / 2)\<rparr>)))
       [ShouldTradeDone scenario_env, PerformSwapDone scenario_trade_env])) = 1 / 2 \<and>
   tradeCount (self (run (start (new_bot (botConfig\<lparr>maxDailyTrades_cfg := Some (1 / 2)\<rparr>)))
       [ShouldTradeDone scenario_env, PerformSwapDone scenario_trade_env])) = 1"
  by (simp add: run_defs)

text \<open>Claim C1, amended. In every state the loop reaches from \<open>start\<close>, whatever the outside
  world answers and whenever \<open>stop\<close> is called: the limit is the one the constructor computed;
  the trade count is strictly below the limit while a trade is in flight; the trade count is 0
  or less than one trade above the limit; and when the limit is a non-negative integer the
  trade count does not exceed it.\<close>

theorem tradeCount_within_integer_limit:
  "maxDailyTrades (self (run (start (new_bot cfg)) ins)) = maxDailyTrades (new_bot cfg) \<and>
   (pc (run (start (new_bot cfg)) ins) = AwaitPerformSwap \<longrightarrow>
      of_int (tradeCount (self (run (start (new_bot cfg)) ins))) < maxDailyTrades (new_bot cfg)) \<and>
   (tradeCount (self (run (start (new_bot cfg)) ins)) = 0 \<or>
    of_int (tradeCount (self (run (start (new_bot cfg)) ins)))
      < maxDailyTrades (new_bot cfg) + 1) \<and>
   (maxDailyTrades (new_bot cfg) = of_int m \<and> 0 \<le> m \<longrightarrow>
      tradeCount (self (run (start (new_bot cfg)) ins)) \<le> m)"
proof -
  let ?s = "run (start (new_bot cfg)) ins"
  have l: "maxDailyTrades (self ?s) = maxDailyTrades (new_bot cfg)"
    by (simp add: limit_run limit_start)
  have "limit_inv (start (new_bot cfg))"
    by (rule limit_inv_start) (simp add: new_bot_def)
  then have "limit_inv ?s" by (rule limit_inv_run)
  then have a: "tradeCount (self ?s) = 0 \<or>
        of_int (tradeCount (self ?s)) < maxDailyTrades (new_bot cfg) + 1"
    and b: "pc ?s = AwaitPerformSwap \<longrightarrow>
        of_int (tradeCount (self ?s)) < maxDailyTrades (new_bot cfg)"
    unfolding limit_inv_def l by blast+
  have c: "tradeCount (self ?s) \<le> m"
    if "maxDailyTrades (new_bot cfg) = of_int m \<and> 0 \<le> m"
  proof -
    from that have e: "maxDailyTrades (new_bot cfg) = of_int m" and p: "0 \<le> m" by blast+
    from a show ?thesis
    proof
      assume "tradeCount (self ?s) = 0"
      with p show ?thesis by simp
    next
      assume "of_int (tradeCount (self ?s)) < maxDailyTrades (new_bot cfg) + 1"
      then have "(of_int (tradeCount (self ?s)) :: rat) < of_int (m + 1)"
        unfolding e by simp
      then have "tradeCount (self ?s) < m + 1" by (simp only: of_int_less_iff)
      then show ?thesis by simp
    qed
  qed
  from l a b c show ?thesis by blast
qed

text \<open>With a limit of 1, a second favourable tick after the first trade does not trade: the
  count stays at 1.\<close>

theorem tradeCount_within_integer_limit_witness:
  "maxDailyTrades (new_bot (botConfig\<lparr>maxDailyTrades_cfg := Some 1\<rparr>)) = of_int 1 \<and>
   tradeCount (self (run (start (new_bot (botConfig\<lparr>maxDailyTrades_cfg := Some 1\<rparr>)))
     [ShouldTradeDone scenario_env, PerformSwapDone scenario_trade_env, TimerFired, TimerFired,
      ShouldTradeDone scenario_env, PerformSwapDone scenario_trade_env])) = 1 \<and>
   pc (run (start (new_bot (botConfig\<lparr>maxDailyTrades_cfg := Some 1\<rparr>)))
     [ShouldTradeDone scenario_env]) = AwaitPerformSwap \<and>
   tradeCount (self (run (start (new_bot (botConfig\<lparr>maxDailyTrades_cfg := Some 1\<rparr>)))
     [ShouldTradeDone scenario_env])) < 1"
proof -
  let ?cfg = "botConfig\<lparr>maxDailyTrades_cfg := Some 1\<rparr>"
  let ?ins = "[ShouldTradeDone scenario_env, PerformSwapDone scenario_trade_env, TimerFired,
      TimerFired, ShouldTradeDone scenario_env, PerformSwapDone scenario_trade_env]"
  have g: "tradeCount (self (run (start (new_bot ?cfg)) ?ins)) \<ge> 1"
    by (simp add: run_defs)
  have m: "maxDailyTrades (new_bot ?cfg) = of_int 1"
    by (simp add: new_bot_def botConfig_def)
  have p: "pc (run (start (new_bot ?cfg)) [ShouldTradeDone scenario_env]) = AwaitPerformSwap"
    by (simp add: run_defs)
  from tradeCount_within_integer_limit[of ?cfg ?ins 1] m
  have u: "tradeCount (self (run (start (new_bot ?cfg)) ?ins)) \<le> 1" by simp
  from tradeCount_within_integer_limit[of ?cfg "[ShouldTradeDone scenario_env]" 1] p m
  have "(of_int (tradeCount (self (run (start (new_bot ?cfg)) [ShouldTradeDone scenario_env])))
          :: rat) < of_int 1"
    by simp
  then have v: "tradeCount (self (run (start (new_bot ?cfg)) [ShouldTradeDone scenario_env])) < 1"
    by (simp only: of_int_less_iff)
  from g m p u v show ?thesis by simp
qed

text \<open>Claim C4. When the pending trade completes with success, the trade count grows by
  exactly 1 and the loop starts the sleep of \<open>tradeCooldown\<close>. When it completes with a
  failure, the trade count is unchanged and the loop starts one sleep of the fixed 30000 ms,
  after which it goes back to the test of the loop with no other sleep. The fixed delay does not
  depend on the configuration and is shorter than the cooldown of the repository's
  configuration.\<close>

theorem trade_attempt_bookkeeping:
  "pc s = AwaitPerformSwap \<Longrightarrow> performSwap (self s) env = (t, r, b') \<Longrightarrow>
   (let s' = step s (PerformSwapDone env) in
    case r of
      Inr signature \<Rightarrow>
        tradeCount (self s') = tradeCount (self s) + 1 \<and>
        pc s' = AwaitCooldown \<and>
        sleeps (events s') = sleeps (events s) @ [tradeCooldown (config (self s))]
    | Inl error \<Rightarrow>
        tradeCount (self s') = tradeCount (self s) \<and>
        pc s' = AwaitRetry \<and>
        sleeps (events s') = sleeps (events s) @ [retryDelay] \<and>
        sleeps (events (step s' TimerFired)) = sleeps (events s') \<and>
        pc (step s' TimerFired) =
          (if isRunning (self s) then AwaitShouldTrade else Finished)) \<and>
   retryDelay = 30000 \<and> retryDelay < tradeCooldown botConfig"
proof -
  assume p: "pc s = AwaitPerformSwap" and r: "performSwap (self s) env = (t, r, b')"
  have t: "sleeps t = []" using sleeps_performSwap[of "self s" env] r by simp
  show ?thesis
  proof (cases r)
    case (Inl e)
    with r have "b' = self s" by (simp add: performSwap_fail)
    with p r t Inl show ?thesis
      by (simp add: Let_def loop_catch_def loop_head_def sleeps_append retryDelay_def
          botConfig_def)
  next
    case (Inr sg)
    with r have "b' = (self s)\<lparr>tradeCount := tradeCount (self s) + 1\<rparr>"
      by (simp add: performSwap_ok)
    with p r t Inr show ?thesis
      by (simp add: Let_def sleeps_append retryDelay_def botConfig_def)
  qed
qed

text \<open>The scenario of the specification: the trade succeeds and the count becomes 1, followed
  by the cooldown of 300000 ms; when the ledger reports the transaction as failed the count
  stays 0 and only the 30000 ms sleep follows.\<close>

theorem trade_attempt_bookkeeping_witness:
  "pc (run (start (new_bot botConfig)) [ShouldTradeDone scenario_env]) = AwaitPerformSwap \<and>
   tradeCount (self (run (start (new_bot botConfig))
      [ShouldTradeDone scenario_env, PerformSwapDone scenario_trade_env])) = 1 \<and>
   sleeps (events (run (start (new_bot botConfig))
      [ShouldTradeDone scenario_env, PerformSwapDone scenario_trade_env])) = [300000] \<and>
   tradeCount (self (run (start (new_bot botConfig))
      [ShouldTradeDone scenario_env, PerformSwapDone failing_trade_env])) = 0 \<and>
   sleeps (events (run (start (new_bot botConfig))
      [ShouldTradeDone scenario_env, PerformSwapDone failing_trade_env])) = [30000]"
proof -
  note [simp del] = step.simps
  let ?s = "run (start (new_bot botConfig)) [ShouldTradeDone scenario_env]"
  let ?ok = "scenario_trade_env"
  let ?bad = "failing_trade_env"
  have p: "pc ?s = AwaitPerformSwap" and c: "tradeCount (self ?s) = 0"
    and v: "sleeps (events ?s) = []" and d: "tradeCooldown (config (self ?s)) = 300000"
    unfolding scenario_trading by (simp_all add: new_bot_def botConfig_def)
  have ok: "performSwap (self ?s) ?ok =
      (fst (performSwap (self ?s) ?ok), Inr ''5sig'',
       (self ?s)\<lparr>tradeCount := tradeCount (self ?s) + 1\<rparr>)"
    using scenario_swap_ok[of "self ?s"] by (cases "performSwap (self ?s) ?ok") simp
  have bad: "performSwap (self ?s) ?bad =
      (fst (performSwap (self ?s) ?bad), Inl (Error ''Transaction failed: InstructionError''),
       self ?s)"
    using scenario_swap_fail[of "self ?s"] by (cases "performSwap (self ?s) ?bad") simp
  have r1: "run (start (new_bot botConfig)) [ShouldTradeDone scenario_env, PerformSwapDone ?ok]
      = step ?s (PerformSwapDone ?ok)"
    and r2: "run (start (new_bot botConfig)) [ShouldTradeDone scenario_env, PerformSwapDone ?bad]
      = step ?s (PerformSwapDone ?bad)"
    by (simp_all add: run_def)
  from trade_attempt_bookkeeping[OF p ok]
  have 1: "tradeCount (self (step ?s (PerformSwapDone ?ok))) = 1 \<and>
           sleeps (events (step ?s (PerformSwapDone ?ok))) = [300000]"
    by (simp add: Let_def c v d)
  from trade_attempt_bookkeeping[OF p bad]
  have 2: "tradeCount (self (step ?s (PerformSwapDone ?bad))) = 0 \<and>
           sleeps (events (step ?s (PerformSwapDone ?bad))) = [30000]"
    by (simp add: Let_def c v retryDelay_def)
  show ?thesis using p 1 2 unfolding r1 r2 by simp
qed

text \<open>Claim C7, as the specification states it: when \<open>stop\<close> is called during evaluation,
  the loop does not begin a trade in that tick. This is false: \<open>stop\<close> (lines 238-241) only
  clears the flag, and the loop reads the flag only in the test of \<open>while\<close> (line 210), not
  between \<open>shouldTrade\<close> and \<open>performSwap\<close> (lines 214-217). Here \<open>stop\<close> is called while
  \<open>shouldTrade\<close> is pending; the decision is true, \<open>performSwap\<close> is started with the flag
  cleared, and the trade is counted. (The exit of the process in the signal handlers of the
  script is wiring around the class, not part of the loop.)\<close>

theorem stop_during_evaluation_still_trades:
  "isRunning (self (run (start (new_bot botConfig)) [StopCalled])) = False \<and>
   pc (run (start (new_bot botConfig)) [StopCalled]) = AwaitShouldTrade \<and>
   pc (run (start (new_bot botConfig)) [StopCalled, ShouldTradeDone scenario_env]) =
     AwaitPerformSwap \<and>
   tradeCount (self (run (start (new_bot botConfig))
     [StopCalled, ShouldTradeDone scenario_env, PerformSwapDone scenario_trade_env])) = 1"
  by (simp add: run_defs)

lemma stopped_step:
  "\<not> isRunning (self s) \<Longrightarrow>
   \<not> isRunning (self (step s i)) \<and>
   tradeCount (self (step s i)) + pending_trades (pc (step s i))
     \<le> tradeCount (self s) + pending_trades (pc s) \<and>
   tradeCount (self s) \<le> tradeCount (self (step s i))"
proof (cases i)
  case StopCalled
  assume "\<not> isRunning (self s)"
  with StopCalled show ?thesis by (simp add: stop_def)
next
  case (ShouldTradeDone env)
  assume a: "\<not> isRunning (self s)"
  obtain t d where e: "shouldTrade (self s) env = (t, Inr d)"
    using shouldTrade_returns by blast
  with a ShouldTradeDone show ?thesis
    by (simp add: pending_trades_def in_tick_def)
next
  case (PerformSwapDone env)
  assume a: "\<not> isRunning (self s)"
  obtain t r b' where e: "performSwap (self s) env = (t, r, b')"
    by (cases "performSwap (self s) env") auto
  show ?thesis
  proof (cases r)
    case (Inl err)
    with e have "b' = self s" by (simp add: performSwap_fail)
    with a e Inl PerformSwapDone show ?thesis
      by (simp add: loop_catch_def pending_trades_def in_tick_def)
  next
    case (Inr sg)
    with e have "b' = (self s)\<lparr>tradeCount := tradeCount (self s) + 1\<rparr>"
      by (simp add: performSwap_ok)
    with a e Inr PerformSwapDone show ?thesis
      by (simp add: pending_trades_def in_tick_def)
  qed
next
  case TimerFired
  assume "\<not> isRunning (self s)"
  with TimerFired show ?thesis
    by (cases "pc s") (simp_all add: loop_head_def pending_trades_def in_tick_def)
qed

lemma stopped_run:
  "\<not> isRunning (self s) \<Longrightarrow>
   \<not> isRunning (self (run s ins)) \<and>
   tradeCount (self (run s ins)) + pending_trades (pc (run s ins))
     \<le> tradeCount (self s) + pending_trades (pc s) \<and>
   tradeCount (self s) \<le> tradeCount (self (run s ins))"
proof (induction ins arbitrary: s)
  case Nil
  then show ?case by (simp add: run_def)
next
  case (Cons i ins)
  from stopped_step[OF Cons.prems, of i]
  have 1: "\<not> isRunning (self (step s i))"
    and 2: "tradeCount (self (step s i)) + pending_trades (pc (step s i))
       \<le> tradeCount (self s) + pending_trades (pc s)"
    and 3: "tradeCount (self s) \<le> tradeCount (self (step s i))" by blast+
  from Cons.IH[OF 1] 2 3 show ?case by (simp add: run_def)
qed

text \<open>Claim C7, amended. The loop reads the running flag only in the test at the top of each
  iteration. Once \<open>stop\<close> has been called the flag stays cleared; the iteration in progress
  runs to its end, so at most one more trade is completed; when the loop is not evaluating or
  trading (it sleeps, or it has finished) no evaluation and no trade starts any more and the
  trade count no longer changes; and the timer that ends the iteration leads to the end of
  the loop.\<close>

theorem stop_observed_at_loop_head:
  "\<not> isRunning (self s) \<Longrightarrow>
   \<not> isRunning (self (run s ins)) \<and>
   tradeCount (self (run s ins)) \<le> tradeCount (self s) + 1 \<and>
   (\<not> in_tick (pc s) \<longrightarrow>
      \<not> in_tick (pc (run s ins)) \<and> tradeCount (self (run s ins)) = tradeCount (self s)) \<and>
   (pc s = AwaitInterval \<or> pc s = AwaitRetry \<longrightarrow> pc (step s TimerFired) = Finished)"
proof -
  assume a: "\<not> isRunning (self s)"
  have pos: "\<And>p. 0 \<le> pending_trades p" "\<And>p. pending_trades p \<le> 1"
    "\<And>p. in_tick p \<Longrightarrow> pending_trades p = 1" "\<And>p. \<not> in_tick p \<Longrightarrow> pending_trades p = 0"
    by (simp_all add: pending_trades_def)
  from stopped_run[OF a, of ins]
  have 1: "\<not> isRunning (self (run s ins))"
    and 2: "tradeCount (self (run s ins)) + pending_trades (pc (run s ins))
       \<le> tradeCount (self s) + pending_trades (pc s)"
    and 3: "tradeCount (self s) \<le> tradeCount (self (run s ins))" by blast+
  have b: "tradeCount (self (run s ins)) \<le> tradeCount (self s) + 1"
    using 2 pos(1)[of "pc (run s ins)"] pos(2)[of "pc s"] by linarith
  have c: "\<not> in_tick (pc (run s ins)) \<and> tradeCount (self (run s ins)) = tradeCount (self s)"
    if n: "\<not> in_tick (pc s)"
  proof -
    have z: "pending_trades (pc s) = 0" using n by (rule pos(4))
    have "pending_trades (pc (run s ins)) = 0"
      using 2 3 z pos(1)[of "pc (run s ins)"] by linarith
    then have "\<not> in_tick (pc (run s ins))" using pos(3)[of "pc (run s ins)"] by auto
    moreover have "tradeCount (self (run s ins)) = tradeCount (self s)"
      using 2 3 z pos(1)[of "pc (run s ins)"] by linarith
    ultimately show ?thesis by blast
  qed
  have d: "pc (step s TimerFired) = Finished" if "pc s = AwaitInterval \<or> pc s = AwaitRetry"
    using that a by (auto simp add: loop_head_def)
  from 1 b c d show ?thesis by blast
qed

text \<open>\<open>stop\<close> is called during the sleep that follows a negative decision: the timer ends the
  loop, and a later favourable evaluation and trade have no effect.\<close>

theorem stop_observed_at_loop_head_witness:
  "\<not> isRunning (self (run (start (new_bot botConfig))
       [ShouldTradeDone (scenario_env\<lparr>balanceResp := Inr 0\<rparr>), StopCalled])) \<and>
   pc (run (start (new_bot botConfig))
       [ShouldTradeDone (scenario_env\<lparr>balanceResp := Inr 0\<rparr>), StopCalled]) = AwaitInterval \<and>
   pc (run (start (new_bot botConfig))
       [ShouldTradeDone (scenario_env\<lparr>balanceResp := Inr 0\<rparr>), StopCalled, TimerFired]) =
     Finished \<and>
   tradeCount (self (run (run (start (new_bot botConfig))
       [ShouldTradeDone (scenario_env\<lparr>balanceResp := Inr 0\<rparr>), StopCalled])
       [TimerFired, ShouldTradeDone scenario_env, PerformSwapDone scenario_trade_env])) = 0"
proof -
  let ?s = "run (start (new_bot botConfig))
       [ShouldTradeDone (scenario_env\<lparr>balanceResp := Inr 0\<rparr>), StopCalled]"
  have s: "\<not> isRunning (self ?s)" and p: "pc ?s = AwaitInterval"
    and c: "tradeCount (self ?s) = 0"
    by (simp_all add: run_defs)
  have r: "run (start (new_bot botConfig))
       [ShouldTradeDone (scenario_env\<lparr>balanceResp := Inr 0\<rparr>), StopCalled, TimerFired]
       = step ?s TimerFired"
    by (simp add: run_def)
  have n: "\<not> in_tick (pc ?s)" using p by (simp add: in_tick_def)
  from stop_observed_at_loop_head
         [OF s, of "[TimerFired, ShouldTradeDone scenario_env, PerformSwapDone scenario_trade_env]"]
    n p c s
  show ?thesis unfolding r by simp
qed

subsection \<open>Waiting for the confirmation\<close>








end
